theory Spec2Isabelle
  imports Main "HOL-Library.AList"
begin

section \<open>Zammad node: generic request functions\<close>

text \<open>
  A shallow embedding of \<^verbatim>\<open>packages/nodes-base/nodes/Zammad/GenericFunctions.ts\<close>.
  JavaScript values are a datatype, objects are association lists in insertion order,
  strings are character lists. An \<^verbatim>\<open>async\<close> function that mutates an object of its
  caller returns the object's final contents next to its result; a rejected promise or a
  thrown exception is the left summand of a sum type.
\<close>

subsection \<open>JavaScript values\<close>

datatype jvalue =
    JUndefined
  | JNull
  | JBool bool
  | JNum int
  | JStr string
  | JArr "jvalue list"
  | JObj "(string \<times> jvalue) list"

text \<open>\<^verbatim>\<open>IDataObject\<close>: a plain object, its own enumerable properties in insertion order.\<close>

type_synonym IDataObject = "(string \<times> jvalue) list"

text \<open>
  What the functions of this file can throw. \<^verbatim>\<open>NodeApiError\<close> and
  \<^verbatim>\<open>NodeOperationError\<close> are classes of the workflow package; they are kept as the
  arguments their constructors are called with: the node and the caught error value, or the
  node and a message. \<^verbatim>\<open>TypeError\<close> is the fault the JavaScript engine raises itself.
\<close>

datatype error =
    NodeApiError string jvalue
  | NodeOperationError string string
  | TypeError

text \<open>
  Reading the property \<^verbatim>\<open>error\<close> of a value (\<^verbatim>\<open>v.error\<close>): a fault on
  \<^verbatim>\<open>undefined\<close> and \<^verbatim>\<open>null\<close>, the stored value on an object that has
  the property, \<^verbatim>\<open>undefined\<close> on every other value.
\<close>

fun get_error :: "jvalue \<Rightarrow> error + jvalue" where
  "get_error JUndefined = Inl TypeError"
| "get_error JNull = Inl TypeError"
| "get_error (JObj ps) = Inr (case map_of ps ''error'' of None \<Rightarrow> JUndefined | Some v \<Rightarrow> v)"
| "get_error v = Inr JUndefined"

text \<open>
  The assignment \<^verbatim>\<open>error.error.error = s\<close>, on an error value whose \<^verbatim>\<open>error\<close>
  property holds an object: the inner object is updated in place, and the outer object,
  which refers to it, shows the new message. Other values are not reached by the
  assignment of the catch handler, which only runs after the comparison has read a string
  from that place.
\<close>

fun set_error_error :: "string \<Rightarrow> jvalue \<Rightarrow> jvalue" where
  "set_error_error s (JObj ps) =
     (case map_of ps ''error'' of
        Some (JObj qs) \<Rightarrow>
          JObj (AList.update ''error'' (JObj (AList.update ''error'' (JStr s) qs)) ps)
      | _ \<Rightarrow> JObj ps)"
| "set_error_error s v = v"

text \<open>
  Spreading a value into \<^verbatim>\<open>push(...v)\<close>: the elements of an array, the characters
  of a string, a fault on a value that is not iterable.
\<close>

fun spread :: "jvalue \<Rightarrow> error + jvalue list" where
  "spread (JArr xs) = Inr xs"
| "spread (JStr s) = Inr (map (\<lambda>c. JStr [c]) s)"
| "spread v = Inl TypeError"

text \<open>
  The truth value of \<^verbatim>\<open>v.length\<close> in the loop condition, for a value that has been
  spread: the length of an array or of a string.
\<close>

fun js_length :: "jvalue \<Rightarrow> nat" where
  "js_length (JArr xs) = length xs"
| "js_length (JStr s) = length s"
| "js_length v = 0"

text \<open>\<^verbatim>\<open>xs.slice(0, fin)\<close> for an integer \<open>fin\<close>; a negative one counts from the end.\<close>

definition slice0 :: "int \<Rightarrow> 'a list \<Rightarrow> 'a list" where
  "slice0 fin xs =
     (let len = int (length xs);
          k = (if fin < 0 then max (len + fin) 0 else min fin len)
      in take (nat k) xs)"

subsection \<open>Strings\<close>

definition startsWith :: "string \<Rightarrow> string \<Rightarrow> bool" where
  "startsWith s pat = (take (length pat) s = pat)"

definition endsWith :: "string \<Rightarrow> string \<Rightarrow> bool" where
  "endsWith s suf = (length suf \<le> length s \<and> drop (length s - length suf) s = suf)"

text \<open>\<^verbatim>\<open>s.substr(start, len)\<close> for natural numbers.\<close>

definition substr :: "nat \<Rightarrow> nat \<Rightarrow> string \<Rightarrow> string" where
  "substr start len s = take len (drop start s)"

text \<open>
  \<^verbatim>\<open>s.replace(pat, rep)\<close> with a string pattern: the leftmost occurrence of
  \<open>pat\<close> is replaced, nothing else. (The replacement used below has no \<^verbatim>\<open>$\<close>,
  so it is inserted as it is.)
\<close>

fun replace :: "string \<Rightarrow> string \<Rightarrow> string \<Rightarrow> string" where
  "replace pat rep [] = (if pat = [] then rep else [])"
| "replace pat rep (c # cs) =
     (if startsWith (c # cs) pat then rep @ drop (length pat) (c # cs)
      else c # replace pat rep cs)"

subsection \<open>Credentials, request options and the node context\<close>

text \<open>
  Modelled from the spec: the type \<^verbatim>\<open>Zammad.Credentials\<close> of \<^verbatim>\<open>./types\<close>,
  a union tagged by \<^verbatim>\<open>authType\<close>. The record has the fields of both variants; the
  code reads those of the variant that the tag names.
\<close>

record Credentials =
  authType :: string
  baseUrl :: string
  username :: string
  password :: string
  accessToken :: string
  allowUnauthorizedCerts :: bool

text \<open>
  \<^verbatim>\<open>OptionsWithUri\<close>: the request descriptor handed to the transport. A property
  that may be absent is an option.
\<close>

record OptionsWithUri =
  opt_method :: string
  opt_body :: "IDataObject option"
  opt_qs :: "IDataObject option"
  opt_uri :: string
  opt_json :: bool
  opt_auth :: "(string \<times> string) option"
  opt_headers :: "(string \<times> string) list option"
  opt_rejectUnauthorized :: "bool option"

text \<open>
  The node context \<^verbatim>\<open>this\<close> (\<^verbatim>\<open>IExecuteFunctions\<close>): the stored
  credentials, the node, and the transport \<^verbatim>\<open>this.helpers.request\<close>. The transport
  answers a request, given the requests issued before it, with a response (\<open>Inr\<close>) or with the value it rejects with (\<open>Inl\<close>).
\<close>

record IExecuteFunctions =
  getCredentials :: Credentials
  getNode :: string
  request :: "OptionsWithUri list \<Rightarrow> OptionsWithUri \<Rightarrow> jvalue + jvalue"

subsection \<open>tolerateTrailingSlash\<close>

definition tolerateTrailingSlash :: "string \<Rightarrow> string" where
  "tolerateTrailingSlash url =
     (if endsWith url ''/'' then substr 0 (length url - 1) url else url)"

subsection \<open>zammadApiRequest\<close>

text \<open>Lines 29 to 70: the options object at the moment it is handed to the transport.\<close>

definition zammadApiRequest_options ::
  "Credentials \<Rightarrow> string \<Rightarrow> string \<Rightarrow> IDataObject \<Rightarrow> IDataObject \<Rightarrow> OptionsWithUri" where
  "zammadApiRequest_options credentials method endpoint body qs =
     (let options = \<lparr> opt_method = method, opt_body = Some body, opt_qs = Some qs,
                       opt_uri = '''', opt_json = True, opt_auth = None,
                       opt_headers = None, opt_rejectUnauthorized = None \<rparr>;
          options =
            (if authType credentials = ''basicAuth'' then
               (let baseUrl = tolerateTrailingSlash (baseUrl credentials) in
                options\<lparr> opt_auth := Some (username credentials, password credentials),
                         opt_uri := baseUrl @ ''/api/v1'' @ endpoint,
                         opt_rejectUnauthorized := Some (\<not> allowUnauthorizedCerts credentials) \<rparr>)
             else if authType credentials = ''tokenAuth'' then
               (let baseUrl = tolerateTrailingSlash (baseUrl credentials) in
                options\<lparr> opt_headers :=
                           Some [(''Authorization'', ''Token token='' @ accessToken credentials)],
                         opt_uri := baseUrl @ ''/api/v1'' @ endpoint,
                         opt_rejectUnauthorized := Some (\<not> allowUnauthorizedCerts credentials) \<rparr>)
             else options);
          options = (if length (map fst body) = 0 then options\<lparr> opt_body := None \<rparr> else options);
          options = (if length (map fst qs) = 0 then options\<lparr> opt_qs := None \<rparr> else options)
      in options)"

text \<open>
  Lines 74 to 80, the catch handler: what is thrown for a caught error value. Reading
  \<^verbatim>\<open>error.error.error\<close> is two property reads, each of which can fault.
\<close>

definition zammadApiRequest_catch :: "string \<Rightarrow> jvalue \<Rightarrow> error" where
  "zammadApiRequest_catch node err =
     (case get_error err of
        Inl fault \<Rightarrow> fault
      | Inr inner \<Rightarrow>
          (case get_error inner of
             Inl fault \<Rightarrow> fault
           | Inr message \<Rightarrow>
               (let err = (if message = JStr ''Object already exists!''
                           then set_error_error ''An entity with this name already exists.'' err
                           else err)
                in NodeApiError node err)))"

text \<open>
  The function returns the response or the error thrown, and the list of the requests
  issued so far, extended by its own.
\<close>

definition zammadApiRequest ::
  "IExecuteFunctions \<Rightarrow> string \<Rightarrow> string \<Rightarrow> IDataObject \<Rightarrow> IDataObject \<Rightarrow> OptionsWithUri list
     \<Rightarrow> (error + jvalue) \<times> OptionsWithUri list" where
  "zammadApiRequest ctx method endpoint body qs log =
     (let options = zammadApiRequest_options (getCredentials ctx) method endpoint body qs
      in case request ctx log options of
           Inr response \<Rightarrow> (Inr response, log @ [options])
         | Inl err \<Rightarrow> (Inl (zammadApiRequest_catch (getNode ctx) err), log @ [options]))"

subsection \<open>zammadApiRequestAllItems\<close>

text \<open>
  \<^verbatim>\<open>qs.page++\<close>. The property holds a number whenever the loop reaches this line:
  line 97 stores one, and nothing else writes it.
\<close>

definition page_increment :: "IDataObject \<Rightarrow> IDataObject" where
  "page_increment qs =
     (case map_of qs ''page'' of
        Some (JNum n) \<Rightarrow> AList.update ''page'' (JNum (n + 1)) qs
      | _ \<Rightarrow> qs)"

text \<open>
  One pass through the body of the \<^verbatim>\<open>do ... while\<close> loop, lines 100 to 108, with
  the loop condition: either the function is left (\<open>Inl\<close>: the value returned or the
  error thrown, the caller's query object, the requests issued), or the loop goes round
  again (\<open>Inr\<close>: the accumulated items, the query object, the requests issued).
\<close>

type_synonym outcome = "(error + jvalue list) \<times> IDataObject \<times> OptionsWithUri list"

definition zammadApiRequestAllItems_body ::
  "IExecuteFunctions \<Rightarrow> string \<Rightarrow> string \<Rightarrow> IDataObject \<Rightarrow> int \<Rightarrow> jvalue list \<Rightarrow> IDataObject
     \<Rightarrow> OptionsWithUri list \<Rightarrow> outcome + (jvalue list \<times> IDataObject \<times> OptionsWithUri list)" where
  "zammadApiRequestAllItems_body ctx method endpoint body limit returnData qs log =
     (case zammadApiRequest ctx method endpoint body qs log of
        (Inl e, log') \<Rightarrow> Inl (Inl e, qs, log')
      | (Inr responseData, log') \<Rightarrow>
          (case spread responseData of
             Inl e \<Rightarrow> Inl (Inl e, qs, log')
           | Inr items \<Rightarrow>
               (let returnData = returnData @ items in
                if limit \<noteq> 0 \<and> int (length returnData) > limit
                then Inl (Inr (slice0 limit returnData), qs, log')
                else
                  (let qs = page_increment qs in
                   if js_length responseData \<noteq> 0 then Inr (returnData, qs, log')
                   else Inl (Inr returnData, qs, log')))))"

text \<open>
  The loop. Nothing bounds the number of passes: a remote that never sends an empty page
  keeps an unlimited fetch going for ever, and then the function has no value.
\<close>

partial_function (option) zammadApiRequestAllItems_loop ::
  "IExecuteFunctions \<Rightarrow> string \<Rightarrow> string \<Rightarrow> IDataObject \<Rightarrow> int \<Rightarrow> jvalue list \<Rightarrow> IDataObject
     \<Rightarrow> OptionsWithUri list \<Rightarrow> outcome option" where
  "zammadApiRequestAllItems_loop ctx method endpoint body limit returnData qs log =
     (case zammadApiRequestAllItems_body ctx method endpoint body limit returnData qs log of
        Inl result \<Rightarrow> Some result
      | Inr (returnData', qs', log') \<Rightarrow>
          zammadApiRequestAllItems_loop ctx method endpoint body limit returnData' qs' log')"

declare zammadApiRequestAllItems_loop.simps [code]

definition zammadApiRequestAllItems ::
  "IExecuteFunctions \<Rightarrow> string \<Rightarrow> string \<Rightarrow> IDataObject \<Rightarrow> IDataObject \<Rightarrow> int \<Rightarrow> OptionsWithUri list
     \<Rightarrow> outcome option" where
  "zammadApiRequestAllItems ctx method endpoint body qs limit log =
     (let returnData = [];
          qs = AList.update ''per_page'' (JNum 20) qs;
          qs = AList.update ''page'' (JNum 1) qs
      in zammadApiRequestAllItems_loop ctx method endpoint body limit returnData qs log)"

subsection \<open>Load options\<close>

text \<open>
  Modelled from the spec: the type \<^verbatim>\<open>Zammad.Field\<close> of \<^verbatim>\<open>./types\<close>, a field
  record with its name, display string, owning resource and creator.
\<close>

record Field =
  name :: string
  display :: string
  object :: string
  created_by_id :: int

record LoadOption =
  option_name :: string
  option_value :: string

definition prettifyDisplayName :: "string \<Rightarrow> string" where
  "prettifyDisplayName fieldName = replace ''name'' '' Name'' fieldName"

definition fieldToLoadOption :: "Field \<Rightarrow> LoadOption" where
  "fieldToLoadOption i = \<lparr> option_name = prettifyDisplayName (display i), option_value = name i \<rparr>"

subsection \<open>Scenarios\<close>

text \<open>
  Two stored credentials, one of each variant, and three remotes: one that holds a list
  of items and serves it in pages as the Zammad API does (the page size and the page
  number are read from the query), one that rejects every request with a given value,
  and one that answers every request with the same response.
\<close>

definition token_credentials :: Credentials where
  "token_credentials =
     \<lparr> authType = ''tokenAuth'', baseUrl = ''https://h/'', username = '''', password = '''',
       accessToken = ''t0'', allowUnauthorizedCerts = False \<rparr>"

definition basic_credentials :: Credentials where
  "basic_credentials =
     \<lparr> authType = ''basicAuth'', baseUrl = ''https://h'', username = ''u'', password = ''p'',
       accessToken = '''', allowUnauthorizedCerts = True \<rparr>"

definition paged_remote :: "jvalue list \<Rightarrow> OptionsWithUri list \<Rightarrow> OptionsWithUri \<Rightarrow> jvalue + jvalue" where
  "paged_remote items history options =
     (case opt_qs options of
        Some q \<Rightarrow>
          (case (map_of q ''per_page'', map_of q ''page'') of
             (Some (JNum per_page), Some (JNum page)) \<Rightarrow>
               Inr (JArr (take (nat per_page) (drop (nat ((page - 1) * per_page)) items)))
           | _ \<Rightarrow> Inr (JArr items))
      | None \<Rightarrow> Inr (JArr items))"

definition failing_remote :: "jvalue \<Rightarrow> OptionsWithUri list \<Rightarrow> OptionsWithUri \<Rightarrow> jvalue + jvalue" where
  "failing_remote err history options = Inl err"

definition constant_remote :: "jvalue \<Rightarrow> OptionsWithUri list \<Rightarrow> OptionsWithUri \<Rightarrow> jvalue + jvalue" where
  "constant_remote response history options = Inr response"

definition node_context ::
  "Credentials \<Rightarrow> (OptionsWithUri list \<Rightarrow> OptionsWithUri \<Rightarrow> jvalue + jvalue) \<Rightarrow> IExecuteFunctions" where
  "node_context credentials remote =
     \<lparr> getCredentials = credentials, getNode = ''Zammad'', request = remote \<rparr>"

text \<open>The items \<open>1, \<dots>, n\<close> of a remote list.\<close>

definition numbered_items :: "int \<Rightarrow> jvalue list" where
  "numbered_items n = map JNum [1..n]"

text \<open>Two field records: one whose display string has \<open>name\<close> twice, one without it.\<close>

definition name_field :: Field where
  "name_field =
     \<lparr> name = ''lastname'', display = ''Last name of name'', object = ''User'', created_by_id = 1 \<rparr>"

definition email_field :: Field where
  "email_field =
     \<lparr> name = ''email'', display = ''Email'', object = ''User'', created_by_id = 1 \<rparr>"

subsection \<open>Notions used in the statements\<close>

text \<open>
  The request that a paginated fetch issues for page \<open>n\<close>: the caller's query with
  \<^verbatim>\<open>per_page\<close> 20 and \<^verbatim>\<open>page\<close> \<open>n\<close>.
\<close>

definition page_request ::
  "IExecuteFunctions \<Rightarrow> string \<Rightarrow> string \<Rightarrow> IDataObject \<Rightarrow> IDataObject \<Rightarrow> int \<Rightarrow> OptionsWithUri" where
  "page_request ctx method endpoint body qs n =
     zammadApiRequest_options (getCredentials ctx) method endpoint body
       (AList.update ''page'' (JNum n) (AList.update ''per_page'' (JNum 20) qs))"

definition query_parameter :: "OptionsWithUri \<Rightarrow> string \<Rightarrow> jvalue option" where
  "query_parameter options k = (case opt_qs options of None \<Rightarrow> None | Some q \<Rightarrow> map_of q k)"

definition requests_issued :: "outcome option \<Rightarrow> nat option" where
  "requests_issued result = map_option (\<lambda>(r, qs, log). length log) result"

definition page_size :: "jvalue + jvalue \<Rightarrow> nat" where
  "page_size answer = (case answer of Inr response \<Rightarrow> js_length response | Inl err \<Rightarrow> 0)"

text \<open>A node whose remote holds the items \<open>1, \<dots>, n\<close>.\<close>

definition pages_context :: "int \<Rightarrow> IExecuteFunctions" where
  "pages_context n = node_context token_credentials (paged_remote (numbered_items n))"

text \<open>
  An error value that lacks a nested \<^verbatim>\<open>error\<close> object: it is not an object whose
  property \<^verbatim>\<open>error\<close> holds an object (a plain object or an array). A string, a
  number or a boolean in that property is not an object.
\<close>

definition lacks_nested_error_object :: "jvalue \<Rightarrow> bool" where
  "lacks_nested_error_object err =
     (case err of
        JObj ps \<Rightarrow>
          (case map_of ps ''error'' of
             Some (JObj inner) \<Rightarrow> False
           | Some (JArr xs) \<Rightarrow> False
           | _ \<Rightarrow> True)
      | _ \<Rightarrow> True)"

text \<open>
  The narrower condition under which reading \<^verbatim>\<open>error.error.error\<close> faults: the
  value has no property \<^verbatim>\<open>error\<close> (as every value that is not an object), or the
  property holds \<^verbatim>\<open>undefined\<close> or \<^verbatim>\<open>null\<close>.
\<close>

definition error_property_nullish :: "jvalue \<Rightarrow> bool" where
  "error_property_nullish err =
     (case err of
        JObj ps \<Rightarrow>
          (case map_of ps ''error'' of
             None \<Rightarrow> True
           | Some JUndefined \<Rightarrow> True
           | Some JNull \<Rightarrow> True
           | Some v \<Rightarrow> False)
      | _ \<Rightarrow> True)"

text \<open>
  Rejection values of the transport: two answers of the remote, a timeout, and the answer
  of a gateway, whose body is a string.
\<close>

definition exists_error :: jvalue where
  "exists_error =
     JObj [(''statusCode'', JNum 422),
           (''error'', JObj [(''error'', JStr ''Object already exists!'')])]"

definition rewritten_error :: jvalue where
  "rewritten_error =
     JObj [(''statusCode'', JNum 422),
           (''error'', JObj [(''error'', JStr ''An entity with this name already exists.'')])]"

definition denied_error :: jvalue where
  "denied_error =
     JObj [(''statusCode'', JNum 403), (''error'', JObj [(''error'', JStr ''Not authorized'')])]"

definition timeout_error :: jvalue where
  "timeout_error = JObj [(''message'', JStr ''ETIMEDOUT'')]"

definition bad_gateway_error :: jvalue where
  "bad_gateway_error = JObj [(''statusCode'', JNum 502), (''error'', JStr ''Bad Gateway'')]"

section \<open>Properties\<close>

subsection \<open>The request descriptor\<close>

lemma zammadApiRequest_log:
  "snd (zammadApiRequest ctx method endpoint body qs log) =
     log @ [zammadApiRequest_options (getCredentials ctx) method endpoint body qs]"
  by (simp add: zammadApiRequest_def Let_def split: sum.split)

lemma options_uri:
  "authType credentials = ''basicAuth'' \<or> authType credentials = ''tokenAuth'' \<Longrightarrow>
   opt_uri (zammadApiRequest_options credentials method endpoint body qs) =
     tolerateTrailingSlash (baseUrl credentials) @ ''/api/v1'' @ endpoint"
  by (auto simp add: zammadApiRequest_options_def Let_def)

lemma options_rejectUnauthorized:
  "authType credentials = ''basicAuth'' \<or> authType credentials = ''tokenAuth'' \<Longrightarrow>
   opt_rejectUnauthorized (zammadApiRequest_options credentials method endpoint body qs) =
     Some (\<not> allowUnauthorizedCerts credentials)"
  by (auto simp add: zammadApiRequest_options_def Let_def)

lemma options_body:
  "opt_body (zammadApiRequest_options credentials method endpoint body qs) =
     (if body = [] then None else Some body)"
  by (simp add: zammadApiRequest_options_def Let_def)

lemma options_qs:
  "opt_qs (zammadApiRequest_options credentials method endpoint body qs) =
     (if qs = [] then None else Some qs)"
  by (simp add: zammadApiRequest_options_def Let_def)

text \<open>
  Claim C5. For every string that ends in \<open>/\<close>, \<open>tolerateTrailingSlash\<close> returns the
  string without that one slash: putting the slash back gives the argument, and a string
  to which a slash was appended comes back as it was. A string that does not end in
  \<open>/\<close> is returned unchanged.
\<close>

theorem tolerateTrailingSlash_strips_one:
  "tolerateTrailingSlash (s @ ''/'') = s \<and>
   (endsWith u ''/'' \<longrightarrow> tolerateTrailingSlash u @ ''/'' = u) \<and>
   (\<not> endsWith v ''/'' \<longrightarrow> tolerateTrailingSlash v = v)"
proof (intro conjI impI)
  show "tolerateTrailingSlash (s @ ''/'') = s"
    by (simp add: tolerateTrailingSlash_def endsWith_def substr_def)
next
  assume e: "endsWith u ''/''"
  then have "drop (length u - 1) u = ''/''"
    by (simp add: endsWith_def)
  then have "take (length u - 1) u @ ''/'' = u"
    by (metis append_take_drop_id)
  with e show "tolerateTrailingSlash u @ ''/'' = u"
    by (simp add: tolerateTrailingSlash_def substr_def)
next
  assume "\<not> endsWith v ''/''"
  then show "tolerateTrailingSlash v = v"
    by (simp add: tolerateTrailingSlash_def)
qed

theorem tolerateTrailingSlash_strips_one_witness:
  "endsWith ''https://h/'' ''/'' \<and> tolerateTrailingSlash ''https://h/'' @ ''/'' = ''https://h/'' \<and>
   \<not> endsWith ''https://h'' ''/'' \<and> tolerateTrailingSlash ''https://h'' = ''https://h''"
proof -
  have a: "endsWith ''https://h/'' ''/''" by (simp add: endsWith_def)
  have b: "\<not> endsWith ''https://h'' ''/''" by (simp add: endsWith_def)
  from a b tolerateTrailingSlash_strips_one [of "''''" "''https://h/''" "''https://h''"]
  show ?thesis by blast
qed

text \<open>
  Claim C6. For stored credentials of either variant (\<open>authType\<close> is \<open>basicAuth\<close> or
  \<open>tokenAuth\<close>) and every endpoint, the one request that \<open>zammadApiRequest\<close> issues
  has the URL made of the normalized base URL, \<open>/api/v1\<close> and the endpoint, and verifies
  TLS certificates exactly when \<open>allowUnauthorizedCerts\<close> is off.
\<close>

theorem zammadApiRequest_uri_and_tls:
  assumes "authType (getCredentials ctx) = ''basicAuth'' \<or>
           authType (getCredentials ctx) = ''tokenAuth''"
  shows "snd (zammadApiRequest ctx method endpoint body qs log) =
           log @ [zammadApiRequest_options (getCredentials ctx) method endpoint body qs] \<and>
         opt_uri (zammadApiRequest_options (getCredentials ctx) method endpoint body qs) =
           tolerateTrailingSlash (baseUrl (getCredentials ctx)) @ ''/api/v1'' @ endpoint \<and>
         opt_rejectUnauthorized (zammadApiRequest_options (getCredentials ctx) method endpoint body qs) =
           Some (\<not> allowUnauthorizedCerts (getCredentials ctx))"
  using assms zammadApiRequest_log options_uri options_rejectUnauthorized by blast

theorem zammadApiRequest_uri_and_tls_witness:
  "authType (getCredentials (node_context token_credentials (paged_remote []))) = ''tokenAuth'' \<and>
   opt_uri (zammadApiRequest_options
              (getCredentials (node_context token_credentials (paged_remote [])))
              ''GET'' ''/users'' [] []) = ''https://h/api/v1/users'' \<and>
   opt_rejectUnauthorized (zammadApiRequest_options
              (getCredentials (node_context token_credentials (paged_remote [])))
              ''GET'' ''/users'' [] []) = Some True \<and>
   authType (getCredentials (node_context basic_credentials (paged_remote []))) = ''basicAuth'' \<and>
   opt_uri (zammadApiRequest_options
              (getCredentials (node_context basic_credentials (paged_remote [])))
              ''GET'' ''/users'' [] []) = ''https://h/api/v1/users'' \<and>
   opt_rejectUnauthorized (zammadApiRequest_options
              (getCredentials (node_context basic_credentials (paged_remote [])))
              ''GET'' ''/users'' [] []) = Some False"
proof -
  have t: "authType (getCredentials (node_context token_credentials (paged_remote []))) = ''tokenAuth''"
    by (simp add: node_context_def token_credentials_def)
  have b: "authType (getCredentials (node_context basic_credentials (paged_remote []))) = ''basicAuth''"
    by (simp add: node_context_def basic_credentials_def)
  have nt: "tolerateTrailingSlash (baseUrl (getCredentials (node_context token_credentials (paged_remote []))))
              @ ''/api/v1'' @ ''/users'' = ''https://h/api/v1/users''"
    by (simp add: node_context_def token_credentials_def tolerateTrailingSlash_def endsWith_def
        substr_def)
  have nb: "tolerateTrailingSlash (baseUrl (getCredentials (node_context basic_credentials (paged_remote []))))
              @ ''/api/v1'' @ ''/users'' = ''https://h/api/v1/users''"
    by (simp add: node_context_def basic_credentials_def tolerateTrailingSlash_def endsWith_def
        substr_def)
  have ct: "allowUnauthorizedCerts (getCredentials (node_context token_credentials (paged_remote []))) = False"
    by (simp add: node_context_def token_credentials_def)
  have cb: "allowUnauthorizedCerts (getCredentials (node_context basic_credentials (paged_remote []))) = True"
    by (simp add: node_context_def basic_credentials_def)
  from zammadApiRequest_uri_and_tls
         [of "node_context token_credentials (paged_remote [])" "''GET''" "''/users''" "[]" "[]" "[]"]
       zammadApiRequest_uri_and_tls
         [of "node_context basic_credentials (paged_remote [])" "''GET''" "''/users''" "[]" "[]" "[]"]
       t b
  show ?thesis unfolding nt nb ct cb by simp
qed

text \<open>
  Claim C7. With an empty body and an empty query, the request that \<open>zammadApiRequest\<close>
  issues has no body field and no query field (they are absent, not empty objects); a
  body or a query that is not empty is kept as it is.
\<close>

theorem zammadApiRequest_omits_empty:
  "snd (zammadApiRequest ctx method endpoint body qs log) =
     log @ [zammadApiRequest_options (getCredentials ctx) method endpoint body qs] \<and>
   opt_body (zammadApiRequest_options (getCredentials ctx) method endpoint [] []) = None \<and>
   opt_qs (zammadApiRequest_options (getCredentials ctx) method endpoint [] []) = None \<and>
   (body \<noteq> [] \<longrightarrow>
      opt_body (zammadApiRequest_options (getCredentials ctx) method endpoint body qs) = Some body) \<and>
   (qs \<noteq> [] \<longrightarrow>
      opt_qs (zammadApiRequest_options (getCredentials ctx) method endpoint body qs) = Some qs)"
  by (simp add: zammadApiRequest_log options_body options_qs)

theorem zammadApiRequest_omits_empty_witness:
  "[(''title'', JStr ''t'')] \<noteq> [] \<and> [(''expand'', JBool True)] \<noteq> [] \<and>
   opt_body (zammadApiRequest_options (getCredentials (node_context token_credentials (paged_remote [])))
     ''POST'' ''/tickets'' [(''title'', JStr ''t'')] [(''expand'', JBool True)]) =
       Some [(''title'', JStr ''t'')] \<and>
   opt_qs (zammadApiRequest_options (getCredentials (node_context token_credentials (paged_remote [])))
     ''POST'' ''/tickets'' [(''title'', JStr ''t'')] [(''expand'', JBool True)]) =
       Some [(''expand'', JBool True)]"
proof -
  have a: "[(''title'', JStr ''t'')] \<noteq> []" and b: "[(''expand'', JBool True)] \<noteq> []"
    by simp_all
  from a b zammadApiRequest_omits_empty
         [of "node_context token_credentials (paged_remote [])" "''POST''" "''/tickets''"
             "[(''title'', JStr ''t'')]" "[(''expand'', JBool True)]" "[]"]
  show ?thesis by blast
qed

subsection \<open>Load options\<close>

lemma replace_first_occurrence:
  "\<forall>k<length u. \<not> startsWith (drop k (u @ pat @ v)) pat \<Longrightarrow>
   replace pat rep (u @ pat @ v) = u @ rep @ v"
proof (induction u)
  case Nil
  show ?case
  proof (cases "pat @ v")
    case Nil
    then show ?thesis by simp
  next
    case (Cons c cs)
    have "startsWith (pat @ v) pat" by (simp add: startsWith_def)
    with Cons have "replace pat rep (pat @ v) = rep @ drop (length pat) (pat @ v)"
      by simp
    then show ?thesis by simp
  qed
next
  case (Cons a u)
  from Cons.prems have "\<not> startsWith (drop 0 ((a # u) @ pat @ v)) pat" by blast
  then have first: "\<not> startsWith (a # u @ pat @ v) pat" by simp
  have "\<forall>k<length u. \<not> startsWith (drop k (u @ pat @ v)) pat"
  proof (intro allI impI)
    fix k assume "k < length u"
    then have "Suc k < length (a # u)" by simp
    with Cons.prems have "\<not> startsWith (drop (Suc k) ((a # u) @ pat @ v)) pat" by blast
    then show "\<not> startsWith (drop k (u @ pat @ v)) pat" by simp
  qed
  then have "replace pat rep (u @ pat @ v) = u @ rep @ v" by (rule Cons.IH)
  with first show ?case by simp
qed

lemma replace_no_occurrence:
  "pat \<noteq> [] \<Longrightarrow> \<forall>k<length s. \<not> startsWith (drop k s) pat \<Longrightarrow> replace pat rep s = s"
proof (induction s)
  case Nil
  then show ?case by simp
next
  case (Cons a s)
  from Cons.prems(2) have "\<not> startsWith (drop 0 (a # s)) pat"
    by (metis length_greater_0_conv list.distinct(1))
  then have first: "\<not> startsWith (a # s) pat" by simp
  have "\<forall>k<length s. \<not> startsWith (drop k s) pat"
  proof (intro allI impI)
    fix k assume "k < length s"
    then have "Suc k < length (a # s)" by simp
    with Cons.prems(2) have "\<not> startsWith (drop (Suc k) (a # s)) pat" by blast
    then show "\<not> startsWith (drop k s) pat" by simp
  qed
  with Cons.IH Cons.prems(1) have "replace pat rep s = s" by blast
  with first show ?case by simp
qed

text \<open>
  Claim C8. \<open>fieldToLoadOption\<close> returns a pair whose value is the field's raw name and
  whose name is the field's display string with the first occurrence of \<open>name\<close>
  replaced by \<open> Name\<close> and nothing else changed: if the display string is \<open>u\<close>,
  \<open>name\<close>, \<open>v\<close> and \<open>name\<close> starts at no earlier position, the name is \<open>u\<close>,
  \<open> Name\<close>, \<open>v\<close>; if \<open>name\<close> does not occur, the display string is kept. In
  particular the field with name and display \<open>username\<close> gives the name \<open>user Name\<close>
  and the value \<open>username\<close>.
\<close>

theorem fieldToLoadOption_first_name:
  "(display i = u @ ''name'' @ v \<and> (\<forall>k<length u. \<not> startsWith (drop k (display i)) ''name'') \<longrightarrow>
      fieldToLoadOption i = \<lparr> option_name = u @ '' Name'' @ v, option_value = name i \<rparr>) \<and>
   ((\<forall>k<length (display j). \<not> startsWith (drop k (display j)) ''name'') \<longrightarrow>
      fieldToLoadOption j = \<lparr> option_name = display j, option_value = name j \<rparr>) \<and>
   fieldToLoadOption \<lparr> name = ''username'', display = ''username'', object = ob, created_by_id = c \<rparr> =
      \<lparr> option_name = ''user Name'', option_value = ''username'' \<rparr>"
proof (intro conjI impI)
  assume a: "display i = u @ ''name'' @ v \<and>
             (\<forall>k<length u. \<not> startsWith (drop k (display i)) ''name'')"
  then have d: "display i = u @ ''name'' @ v"
    and n: "\<forall>k<length u. \<not> startsWith (drop k (display i)) ''name''" by blast+
  from n have "\<forall>k<length u. \<not> startsWith (drop k (u @ ''name'' @ v)) ''name''"
    unfolding d .
  then have "replace ''name'' '' Name'' (u @ ''name'' @ v) = u @ '' Name'' @ v"
    by (rule replace_first_occurrence)
  with d show "fieldToLoadOption i = \<lparr> option_name = u @ '' Name'' @ v, option_value = name i \<rparr>"
    by (simp add: fieldToLoadOption_def prettifyDisplayName_def)
next
  assume "\<forall>k<length (display j). \<not> startsWith (drop k (display j)) ''name''"
  then have "replace ''name'' '' Name'' (display j) = display j"
    by (intro replace_no_occurrence) simp_all
  then show "fieldToLoadOption j = \<lparr> option_name = display j, option_value = name j \<rparr>"
    by (simp add: fieldToLoadOption_def prettifyDisplayName_def)
next
  show "fieldToLoadOption \<lparr> name = ''username'', display = ''username'', object = ob, created_by_id = c \<rparr> =
      \<lparr> option_name = ''user Name'', option_value = ''username'' \<rparr>"
    by (simp add: fieldToLoadOption_def prettifyDisplayName_def startsWith_def)
qed

theorem fieldToLoadOption_first_name_witness:
  "display name_field = ''Last '' @ ''name'' @ '' of name'' \<and>
   fieldToLoadOption name_field =
     \<lparr> option_name = ''Last  Name of name'', option_value = ''lastname'' \<rparr> \<and>
   fieldToLoadOption email_field = \<lparr> option_name = ''Email'', option_value = ''email'' \<rparr>"
proof -
  have a: "display name_field = ''Last '' @ ''name'' @ '' of name''"
    by (simp add: name_field_def)
  have b: "\<forall>k<length ''Last ''. \<not> startsWith (drop k (display name_field)) ''name''"
    by (simp add: name_field_def startsWith_def less_Suc_eq)
  have c: "\<forall>k<length (display email_field). \<not> startsWith (drop k (display email_field)) ''name''"
    by (simp add: email_field_def startsWith_def less_Suc_eq)
  have n: "name name_field = ''lastname''" "name email_field = ''email''"
    "display email_field = ''Email''"
    by (simp_all add: name_field_def email_field_def)
  from fieldToLoadOption_first_name [of name_field "''Last ''" "'' of name''" email_field] a b c
  have "fieldToLoadOption name_field =
          \<lparr> option_name = ''Last '' @ '' Name'' @ '' of name'', option_value = name name_field \<rparr>"
    and "fieldToLoadOption email_field =
          \<lparr> option_name = display email_field, option_value = name email_field \<rparr>"
    by blast+
  with a show ?thesis unfolding n by simp
qed

subsection \<open>The catch handler\<close>

lemma catch_message:
  assumes "map_of ps ''error'' = Some (JObj inner)" and "map_of inner ''error'' = Some (JStr m)"
  shows "zammadApiRequest_catch node (JObj ps) =
           NodeApiError node
             (if m = ''Object already exists!''
              then JObj (AList.update ''error''
                     (JObj (AList.update ''error'' (JStr ''An entity with this name already exists.'') inner)) ps)
              else JObj ps)"
  using assms by (simp add: zammadApiRequest_catch_def)

lemma catch_fault:
  "error_property_nullish err \<Longrightarrow> zammadApiRequest_catch node err = TypeError"
  by (cases err) (auto simp add: zammadApiRequest_catch_def error_property_nullish_def
      split: option.splits jvalue.splits)

lemma catch_wrapped:
  "\<not> error_property_nullish err \<Longrightarrow> \<exists>e. zammadApiRequest_catch node err = NodeApiError node e"
  by (cases err) (auto simp add: zammadApiRequest_catch_def error_property_nullish_def Let_def
      split: option.splits jvalue.splits sum.splits)

lemma zammadApiRequest_fail:
  "request ctx log (zammadApiRequest_options (getCredentials ctx) method endpoint body qs) = Inl err \<Longrightarrow>
   zammadApiRequest ctx method endpoint body qs log =
     (Inl (zammadApiRequest_catch (getNode ctx) err),
      log @ [zammadApiRequest_options (getCredentials ctx) method endpoint body qs])"
  by (simp add: zammadApiRequest_def Let_def)

lemma zammadApiRequest_ok:
  "request ctx log (zammadApiRequest_options (getCredentials ctx) method endpoint body qs) = Inr response \<Longrightarrow>
   zammadApiRequest ctx method endpoint body qs log =
     (Inr response,
      log @ [zammadApiRequest_options (getCredentials ctx) method endpoint body qs])"
  by (simp add: zammadApiRequest_def Let_def)

text \<open>
  Claim C4. When the transport call fails, \<open>zammadApiRequest\<close> fails too (no error
  is swallowed). If the message of the caught error, the string at
  \<^verbatim>\<open>error.error.error\<close>, is exactly \<open>Object already exists!\<close>, it is rewritten
  to \<open>An entity with this name already exists.\<close> and the error is thrown wrapped with
  the node; with any other string there, the caught error is thrown unchanged inside the
  same wrapper.
\<close>

theorem zammadApiRequest_rewrites_message:
  assumes "request ctx log (zammadApiRequest_options (getCredentials ctx) method endpoint body qs) = Inl err"
  shows "isl (fst (zammadApiRequest ctx method endpoint body qs log)) \<and>
         (err = JObj ps \<and> map_of ps ''error'' = Some (JObj inner) \<and>
          map_of inner ''error'' = Some (JStr m) \<longrightarrow>
          fst (zammadApiRequest ctx method endpoint body qs log) =
            Inl (NodeApiError (getNode ctx)
              (if m = ''Object already exists!''
               then JObj (AList.update ''error''
                      (JObj (AList.update ''error'' (JStr ''An entity with this name already exists.'') inner)) ps)
               else err)))"
  using assms by (auto simp add: zammadApiRequest_fail catch_message)

theorem zammadApiRequest_rewrites_message_witness:
  "fst (zammadApiRequest (node_context token_credentials (failing_remote exists_error)) ''POST'' ''/users'' [] [] []) =
     Inl (NodeApiError ''Zammad'' rewritten_error) \<and>
   fst (zammadApiRequest (node_context token_credentials (failing_remote denied_error)) ''POST'' ''/users'' [] [] []) =
     Inl (NodeApiError ''Zammad'' denied_error)"
proof -
  have r: "request (node_context token_credentials (failing_remote e)) []
        (zammadApiRequest_options (getCredentials (node_context token_credentials (failing_remote e)))
           ''POST'' ''/users'' [] []) = Inl e" for e
    by (simp add: node_context_def failing_remote_def)
  have n: "getNode (node_context token_credentials (failing_remote e)) = ''Zammad''" for e
    by (simp add: node_context_def)
  have a: "exists_error = JObj [(''statusCode'', JNum 422), (''error'', JObj [(''error'', JStr ''Object already exists!'')])] \<and>
           map_of [(''statusCode'', JNum 422), (''error'', JObj [(''error'', JStr ''Object already exists!'')])] ''error''
             = Some (JObj [(''error'', JStr ''Object already exists!'')]) \<and>
           map_of [(''error'', JStr ''Object already exists!'')] ''error'' = Some (JStr ''Object already exists!'')"
    by (simp add: exists_error_def)
  have b: "denied_error = JObj [(''statusCode'', JNum 403), (''error'', JObj [(''error'', JStr ''Not authorized'')])] \<and>
           map_of [(''statusCode'', JNum 403), (''error'', JObj [(''error'', JStr ''Not authorized'')])] ''error''
             = Some (JObj [(''error'', JStr ''Not authorized'')]) \<and>
           map_of [(''error'', JStr ''Not authorized'')] ''error'' = Some (JStr ''Not authorized'')"
    by (simp add: denied_error_def)
  from zammadApiRequest_rewrites_message [OF r [of exists_error], THEN conjunct2, rule_format, OF a]
  have 1: "fst (zammadApiRequest (node_context token_credentials (failing_remote exists_error)) ''POST'' ''/users'' [] [] []) =
     Inl (NodeApiError ''Zammad'' rewritten_error)"
    unfolding n by (simp add: rewritten_error_def)
  from zammadApiRequest_rewrites_message [OF r [of denied_error], THEN conjunct2, rule_format, OF b]
  have 2: "fst (zammadApiRequest (node_context token_credentials (failing_remote denied_error)) ''POST'' ''/users'' [] [] []) =
     Inl (NodeApiError ''Zammad'' denied_error)"
    unfolding n by simp
  from 1 2 show ?thesis by blast
qed

lemma catch_primitive:
  assumes "map_of ps ''error'' = Some v" and "get_error v = Inr JUndefined"
  shows "zammadApiRequest_catch node (JObj ps) = NodeApiError node (JObj ps)"
  using assms by (simp add: zammadApiRequest_catch_def)

text \<open>
  Claim C10, as the code has it. The catch handler reads \<^verbatim>\<open>error.error.error\<close>
  without a guard. When the transport fails with a value whose property
  \<^verbatim>\<open>error\<close> is missing, \<^verbatim>\<open>undefined\<close> or \<^verbatim>\<open>null\<close>, the handler
  faults and the caller receives the raw \<^verbatim>\<open>TypeError\<close>, not the API error
  carrying the node. With every other value the handler does not fault and the caller
  receives the API error with the node; in particular, when the property holds a string,
  a number or a boolean and not an object, the caught value is wrapped as it is.
\<close>

theorem zammadApiRequest_catch_faults:
  assumes "request ctx log (zammadApiRequest_options (getCredentials ctx) method endpoint body qs) = Inl err"
  shows "(error_property_nullish err \<longrightarrow>
            fst (zammadApiRequest ctx method endpoint body qs log) = Inl TypeError) \<and>
         (\<not> error_property_nullish err \<longrightarrow>
            (\<exists>e. fst (zammadApiRequest ctx method endpoint body qs log) =
                   Inl (NodeApiError (getNode ctx) e))) \<and>
         (err = JObj ps \<and>
          (map_of ps ''error'' = Some (JStr s) \<or> map_of ps ''error'' = Some (JNum n) \<or>
           map_of ps ''error'' = Some (JBool b)) \<longrightarrow>
            fst (zammadApiRequest ctx method endpoint body qs log) =
              Inl (NodeApiError (getNode ctx) err))"
proof (intro conjI impI)
  assume "error_property_nullish err"
  with assms show "fst (zammadApiRequest ctx method endpoint body qs log) = Inl TypeError"
    by (simp add: zammadApiRequest_fail catch_fault)
next
  assume "\<not> error_property_nullish err"
  then obtain e where "zammadApiRequest_catch (getNode ctx) err = NodeApiError (getNode ctx) e"
    using catch_wrapped by blast
  with assms show "\<exists>e. fst (zammadApiRequest ctx method endpoint body qs log) =
                   Inl (NodeApiError (getNode ctx) e)"
    by (simp add: zammadApiRequest_fail)
next
  assume a: "err = JObj ps \<and>
          (map_of ps ''error'' = Some (JStr s) \<or> map_of ps ''error'' = Some (JNum n) \<or>
           map_of ps ''error'' = Some (JBool b))"
  then obtain v where v: "map_of ps ''error'' = Some v" "get_error v = Inr JUndefined"
    by auto
  from a have "zammadApiRequest_catch (getNode ctx) err = NodeApiError (getNode ctx) err"
    using catch_primitive [OF v] by simp
  with assms show "fst (zammadApiRequest ctx method endpoint body qs log) =
              Inl (NodeApiError (getNode ctx) err)"
    by (simp add: zammadApiRequest_fail)
qed

theorem zammadApiRequest_catch_faults_witness:
  "error_property_nullish timeout_error \<and>
   fst (zammadApiRequest (node_context token_credentials (failing_remote timeout_error))
          ''GET'' ''/users'' [] [] []) = Inl TypeError \<and>
   \<not> error_property_nullish denied_error \<and>
   (\<exists>e. fst (zammadApiRequest (node_context token_credentials (failing_remote denied_error))
          ''GET'' ''/users'' [] [] []) = Inl (NodeApiError ''Zammad'' e)) \<and>
   fst (zammadApiRequest (node_context token_credentials (failing_remote bad_gateway_error))
          ''GET'' ''/users'' [] [] []) = Inl (NodeApiError ''Zammad'' bad_gateway_error)"
proof -
  have r: "request (node_context token_credentials (failing_remote e)) []
        (zammadApiRequest_options (getCredentials (node_context token_credentials (failing_remote e)))
           ''GET'' ''/users'' [] []) = Inl e" for e
    by (simp add: node_context_def failing_remote_def)
  have n: "getNode (node_context token_credentials (failing_remote e)) = ''Zammad''" for e
    by (simp add: node_context_def)
  have l: "error_property_nullish timeout_error"
    by (simp add: error_property_nullish_def timeout_error_def)
  have d: "\<not> error_property_nullish denied_error"
    by (simp add: error_property_nullish_def denied_error_def)
  have g: "bad_gateway_error =
             JObj [(''statusCode'', JNum 502), (''error'', JStr ''Bad Gateway'')] \<and>
           (map_of [(''statusCode'', JNum 502), (''error'', JStr ''Bad Gateway'')] ''error'' =
              Some (JStr ''Bad Gateway'') \<or>
            map_of [(''statusCode'', JNum 502), (''error'', JStr ''Bad Gateway'')] ''error'' =
              Some (JNum 0) \<or>
            map_of [(''statusCode'', JNum 502), (''error'', JStr ''Bad Gateway'')] ''error'' =
              Some (JBool False))"
    by (simp add: bad_gateway_error_def)
  note t = zammadApiRequest_catch_faults [OF r [of timeout_error]]
  from t [THEN conjunct1, rule_format, OF l]
  have 1: "fst (zammadApiRequest (node_context token_credentials (failing_remote timeout_error))
          ''GET'' ''/users'' [] [] []) = Inl TypeError" .
  note u = zammadApiRequest_catch_faults [OF r [of denied_error]]
  from u [THEN conjunct2, THEN conjunct1, rule_format, OF d]
  have 2: "\<exists>e. fst (zammadApiRequest (node_context token_credentials (failing_remote denied_error))
          ''GET'' ''/users'' [] [] []) = Inl (NodeApiError ''Zammad'' e)"
    unfolding n .
  note w = zammadApiRequest_catch_faults [OF r [of bad_gateway_error]]
  from w [THEN conjunct2, THEN conjunct2, rule_format, OF g]
  have 3: "fst (zammadApiRequest (node_context token_credentials (failing_remote bad_gateway_error))
          ''GET'' ''/users'' [] [] []) = Inl (NodeApiError ''Zammad'' bad_gateway_error)"
    unfolding n .
  from l 1 d 2 3 show ?thesis by (intro conjI)
qed

text \<open>
  Claim C10 as stated fails on the answer of a gateway: its property \<^verbatim>\<open>error\<close>
  holds the string \<open>Bad Gateway\<close>, so the value lacks a nested \<^verbatim>\<open>error\<close> object,
  and yet the handler does not fault: the caller receives the API error with the node,
  not a \<^verbatim>\<open>TypeError\<close>.
\<close>

theorem zammadApiRequest_catch_faults_counterexample:
  "lacks_nested_error_object bad_gateway_error \<and>
   request (node_context token_credentials (failing_remote bad_gateway_error)) []
     (zammadApiRequest_options
        (getCredentials (node_context token_credentials (failing_remote bad_gateway_error)))
        ''GET'' ''/users'' [] []) = Inl bad_gateway_error \<and>
   fst (zammadApiRequest (node_context token_credentials (failing_remote bad_gateway_error))
          ''GET'' ''/users'' [] [] []) = Inl (NodeApiError ''Zammad'' bad_gateway_error) \<and>
   fst (zammadApiRequest (node_context token_credentials (failing_remote bad_gateway_error))
          ''GET'' ''/users'' [] [] []) \<noteq> Inl TypeError"
  by (simp add: lacks_nested_error_object_def bad_gateway_error_def zammadApiRequest_def
      zammadApiRequest_catch_def node_context_def failing_remote_def Let_def)

subsection \<open>The paginated fetcher\<close>

text \<open>
  One pass of the loop, by what the remote answers: the limit is exceeded, the page is not
  empty, or the page is empty.
\<close>

lemma body_limit:
  assumes "request ctx log (zammadApiRequest_options (getCredentials ctx) method endpoint body qs) = Inr (JArr items)"
    and "limit \<noteq> 0" and "limit < int (length (returnData @ items))"
  shows "zammadApiRequestAllItems_body ctx method endpoint body limit returnData qs log =
           Inl (Inr (slice0 limit (returnData @ items)), qs,
                log @ [zammadApiRequest_options (getCredentials ctx) method endpoint body qs])"
  using assms by (simp add: zammadApiRequestAllItems_body_def zammadApiRequest_ok Let_def)

lemma body_continue:
  assumes "request ctx log (zammadApiRequest_options (getCredentials ctx) method endpoint body qs) = Inr (JArr items)"
    and "limit = 0 \<or> int (length (returnData @ items)) \<le> limit" and "items \<noteq> []"
  shows "zammadApiRequestAllItems_body ctx method endpoint body limit returnData qs log =
           Inr (returnData @ items, page_increment qs,
                log @ [zammadApiRequest_options (getCredentials ctx) method endpoint body qs])"
  using assms by (auto simp add: zammadApiRequestAllItems_body_def zammadApiRequest_ok Let_def)

lemma body_empty:
  assumes "request ctx log (zammadApiRequest_options (getCredentials ctx) method endpoint body qs) = Inr (JArr [])"
    and "limit = 0 \<or> int (length returnData) \<le> limit"
  shows "zammadApiRequestAllItems_body ctx method endpoint body limit returnData qs log =
           Inl (Inr returnData, page_increment qs,
                log @ [zammadApiRequest_options (getCredentials ctx) method endpoint body qs])"
  using assms by (auto simp add: zammadApiRequestAllItems_body_def zammadApiRequest_ok Let_def)

lemma loop_limit:
  assumes "request ctx log (zammadApiRequest_options (getCredentials ctx) method endpoint body qs) = Inr (JArr items)"
    and "limit \<noteq> 0" and "limit < int (length (returnData @ items))"
  shows "zammadApiRequestAllItems_loop ctx method endpoint body limit returnData qs log =
           Some (Inr (slice0 limit (returnData @ items)), qs,
                log @ [zammadApiRequest_options (getCredentials ctx) method endpoint body qs])"
  by (subst zammadApiRequestAllItems_loop.simps) (simp add: body_limit [OF assms])

lemma loop_continue:
  assumes "request ctx log (zammadApiRequest_options (getCredentials ctx) method endpoint body qs) = Inr (JArr items)"
    and "limit = 0 \<or> int (length (returnData @ items)) \<le> limit" and "items \<noteq> []"
  shows "zammadApiRequestAllItems_loop ctx method endpoint body limit returnData qs log =
         zammadApiRequestAllItems_loop ctx method endpoint body limit (returnData @ items)
           (page_increment qs)
           (log @ [zammadApiRequest_options (getCredentials ctx) method endpoint body qs])"
  by (subst zammadApiRequestAllItems_loop.simps) (simp add: body_continue [OF assms])

lemma loop_empty:
  assumes "request ctx log (zammadApiRequest_options (getCredentials ctx) method endpoint body qs) = Inr (JArr [])"
    and "limit = 0 \<or> int (length returnData) \<le> limit"
  shows "zammadApiRequestAllItems_loop ctx method endpoint body limit returnData qs log =
           Some (Inr returnData, page_increment qs,
                log @ [zammadApiRequest_options (getCredentials ctx) method endpoint body qs])"
  by (subst zammadApiRequestAllItems_loop.simps) (simp add: body_empty [OF assms])

lemma page_increment_update:
  "page_increment (AList.update ''page'' (JNum n) q) = AList.update ''page'' (JNum (n + 1)) q"
  by (simp add: page_increment_def update_conv')

lemma slice0_positive: "0 < limit \<Longrightarrow> limit < int (length xs) \<Longrightarrow> slice0 limit xs = take (nat limit) xs"
  by (simp add: slice0_def Let_def)

lemma query_parameter_page: "query_parameter (page_request ctx method endpoint body qs n) ''page'' = Some (JNum n)"
  by (simp add: query_parameter_def page_request_def options_qs update_conv')

lemma query_parameter_per_page: "query_parameter (page_request ctx method endpoint body qs n) ''per_page'' = Some (JNum 20)"
  by (simp add: query_parameter_def page_request_def options_qs update_conv')

lemma page_increment_other: "k \<noteq> ''page'' \<Longrightarrow> map_of (page_increment qs) k = map_of qs k"
  by (simp add: page_increment_def update_conv' split: option.split jvalue.split)

lemma page_increment_page:
  "map_of qs ''page'' = Some (JNum n) \<Longrightarrow> map_of (page_increment qs) ''page'' = Some (JNum (n + 1))"
  by (simp add: page_increment_def update_conv')

lemma zammadApiRequest_pair:
  "zammadApiRequest ctx method endpoint body qs log =
     (fst (zammadApiRequest ctx method endpoint body qs log),
      log @ [zammadApiRequest_options (getCredentials ctx) method endpoint body qs])"
  by (metis prod.collapse zammadApiRequest_log)

lemma body_returns:
  assumes "zammadApiRequestAllItems_body ctx method endpoint body limit returnData qs log = Inl (r, qf, logf)"
  shows "logf = log @ [zammadApiRequest_options (getCredentials ctx) method endpoint body qs] \<and>
         (qf = qs \<or> qf = page_increment qs)"
proof (cases "fst (zammadApiRequest ctx method endpoint body qs log)")
  case (Inl e)
  with assms show ?thesis
    by (subst (asm) zammadApiRequestAllItems_body_def, subst (asm) zammadApiRequest_pair) auto
next
  case (Inr responseData)
  show ?thesis
  proof (cases "spread responseData")
    case (Inl e)
    with assms Inr show ?thesis
      by (subst (asm) zammadApiRequestAllItems_body_def, subst (asm) zammadApiRequest_pair) auto
  next
    case spr: (Inr items)
    with assms Inr show ?thesis
      by (subst (asm) zammadApiRequestAllItems_body_def, subst (asm) zammadApiRequest_pair)
        (auto simp add: Let_def split: if_splits)
  qed
qed

lemma body_goes_on:
  assumes "zammadApiRequestAllItems_body ctx method endpoint body limit returnData qs log = Inr (rd, q', log')"
  shows "log' = log @ [zammadApiRequest_options (getCredentials ctx) method endpoint body qs] \<and>
         q' = page_increment qs"
proof (cases "fst (zammadApiRequest ctx method endpoint body qs log)")
  case (Inl e)
  with assms show ?thesis
    by (subst (asm) zammadApiRequestAllItems_body_def, subst (asm) zammadApiRequest_pair) auto
next
  case (Inr responseData)
  show ?thesis
  proof (cases "spread responseData")
    case (Inl e)
    with assms Inr show ?thesis
      by (subst (asm) zammadApiRequestAllItems_body_def, subst (asm) zammadApiRequest_pair) auto
  next
    case spr: (Inr items)
    with assms Inr show ?thesis
      by (subst (asm) zammadApiRequestAllItems_body_def, subst (asm) zammadApiRequest_pair)
        (auto simp add: Let_def split: if_splits)
  qed
qed

lemma loop_frame:
  assumes "zammadApiRequestAllItems_loop ctx method endpoint body limit returnData qs log = Some y"
  shows "(\<forall>k. k \<noteq> ''page'' \<longrightarrow> map_of (fst (snd y)) k = map_of qs k) \<and>
         (\<forall>n. map_of qs ''page'' = Some (JNum n) \<longrightarrow>
            (\<exists>n'\<ge>n. map_of (fst (snd y)) ''page'' = Some (JNum n'))) \<and>
         (\<exists>rest. snd (snd y) =
            log @ [zammadApiRequest_options (getCredentials ctx) method endpoint body qs] @ rest)"
proof (rule zammadApiRequestAllItems_loop.raw_induct
    [where P = "\<lambda>ctx method endpoint body limit returnData qs log y.
         (\<forall>k. k \<noteq> ''page'' \<longrightarrow> map_of (fst (snd y)) k = map_of qs k) \<and>
         (\<forall>n. map_of qs ''page'' = Some (JNum n) \<longrightarrow>
            (\<exists>n'\<ge>n. map_of (fst (snd y)) ''page'' = Some (JNum n'))) \<and>
         (\<exists>rest. snd (snd y) =
            log @ [zammadApiRequest_options (getCredentials ctx) method endpoint body qs] @ rest)",
      OF _ assms])
  fix loop ctx http_method endpoint body limit returnData qs log y
  assume IH: "\<And>ctx http_method endpoint body limit returnData qs log y.
          loop ctx http_method endpoint body limit returnData qs log = Some y \<Longrightarrow>
         (\<forall>k. k \<noteq> ''page'' \<longrightarrow> map_of (fst (snd y)) k = map_of qs k) \<and>
         (\<forall>n. map_of qs ''page'' = Some (JNum n) \<longrightarrow>
            (\<exists>n'\<ge>n. map_of (fst (snd y)) ''page'' = Some (JNum n'))) \<and>
         (\<exists>rest. snd (snd y) =
            log @ [zammadApiRequest_options (getCredentials ctx) http_method endpoint body qs] @ rest)"
    and step: "(case zammadApiRequestAllItems_body ctx http_method endpoint body limit returnData qs log of
            Inl result \<Rightarrow> Some result
          | Inr (returnData', qs', log') \<Rightarrow> loop ctx http_method endpoint body limit returnData' qs' log') =
          Some y"
  show "(\<forall>k. k \<noteq> ''page'' \<longrightarrow> map_of (fst (snd y)) k = map_of qs k) \<and>
         (\<forall>n. map_of qs ''page'' = Some (JNum n) \<longrightarrow>
            (\<exists>n'\<ge>n. map_of (fst (snd y)) ''page'' = Some (JNum n'))) \<and>
         (\<exists>rest. snd (snd y) =
            log @ [zammadApiRequest_options (getCredentials ctx) http_method endpoint body qs] @ rest)"
  proof (cases "zammadApiRequestAllItems_body ctx http_method endpoint body limit returnData qs log")
    case (Inl result)
    with step have y: "y = result" by simp
    obtain r qf logf where res: "result = (r, qf, logf)" by (cases result) auto
    from body_returns [OF Inl [unfolded res]]
    have lf: "logf = log @ [zammadApiRequest_options (getCredentials ctx) http_method endpoint body qs]"
      and q: "qf = qs \<or> qf = page_increment qs" by blast+
    have f: "fst (snd y) = qf" and g: "snd (snd y) = logf" using y res by simp_all
    have "\<forall>k. k \<noteq> ''page'' \<longrightarrow> map_of qf k = map_of qs k"
      using q by (auto simp add: page_increment_other)
    moreover have "\<forall>n. map_of qs ''page'' = Some (JNum n) \<longrightarrow>
            (\<exists>n'\<ge>n. map_of qf ''page'' = Some (JNum n'))"
    proof (intro allI impI)
      fix n assume p: "map_of qs ''page'' = Some (JNum n)"
      from q show "\<exists>n'\<ge>n. map_of qf ''page'' = Some (JNum n')"
      proof
        assume "qf = qs"
        with p show ?thesis by (intro exI [of _ n]) simp
      next
        assume "qf = page_increment qs"
        with p show ?thesis by (intro exI [of _ "n + 1"]) (simp add: page_increment_page)
      qed
    qed
    moreover have "\<exists>rest. logf =
            log @ [zammadApiRequest_options (getCredentials ctx) http_method endpoint body qs] @ rest"
      using lf by simp
    ultimately show ?thesis unfolding f g by (intro conjI)
  next
    case (Inr state)
    obtain rd q' log' where st: "state = (rd, q', log')" by (cases state) auto
    from body_goes_on [OF Inr [unfolded st]]
    have l: "log' = log @ [zammadApiRequest_options (getCredentials ctx) http_method endpoint body qs]"
      and q: "q' = page_increment qs" by blast+
    from step Inr st have "loop ctx http_method endpoint body limit rd q' log' = Some y" by simp
    note ih = IH [OF this]
    from ih have a: "\<forall>k. k \<noteq> ''page'' \<longrightarrow> map_of (fst (snd y)) k = map_of q' k"
      by (rule conjunct1)
    from ih have b: "\<forall>n. map_of q' ''page'' = Some (JNum n) \<longrightarrow>
            (\<exists>n'\<ge>n. map_of (fst (snd y)) ''page'' = Some (JNum n'))"
      by (rule conjunct2 [THEN conjunct1])
    from ih obtain rest where c: "snd (snd y) =
            log' @ [zammadApiRequest_options (getCredentials ctx) http_method endpoint body q'] @ rest"
      by (elim conjE exE)
    have "\<forall>k. k \<noteq> ''page'' \<longrightarrow> map_of (fst (snd y)) k = map_of qs k"
      using a q by (simp add: page_increment_other)
    moreover have "\<forall>n. map_of qs ''page'' = Some (JNum n) \<longrightarrow>
            (\<exists>n'\<ge>n. map_of (fst (snd y)) ''page'' = Some (JNum n'))"
    proof (intro allI impI)
      fix n assume "map_of qs ''page'' = Some (JNum n)"
      then have "map_of q' ''page'' = Some (JNum (n + 1))" using q by (simp add: page_increment_page)
      with b obtain n' where "n' \<ge> n + 1" "map_of (fst (snd y)) ''page'' = Some (JNum n')" by blast
      then show "\<exists>n'\<ge>n. map_of (fst (snd y)) ''page'' = Some (JNum n')"
        by (intro exI [of _ n']) simp
    qed
    moreover have "snd (snd y) =
            log @ [zammadApiRequest_options (getCredentials ctx) http_method endpoint body qs] @
              ([zammadApiRequest_options (getCredentials ctx) http_method endpoint body q'] @ rest)"
      unfolding c l by simp
    then have "\<exists>rest. snd (snd y) =
            log @ [zammadApiRequest_options (getCredentials ctx) http_method endpoint body qs] @ rest"
      by (rule exI)
    ultimately show ?thesis by (intro conjI)
  qed
qed

lemma spread_empty: "spread response = Inr its \<Longrightarrow> js_length response = 0 \<longleftrightarrow> its = []"
  by (cases response) auto

lemma body_stops:
  assumes "0 < limit"
    and "request ctx log (zammadApiRequest_options (getCredentials ctx) method endpoint body qs) = Inr response"
    and "spread response = Inr its"
    and "zammadApiRequestAllItems_body ctx method endpoint body limit returnData qs log = Inl (Inr result, qf, logf)"
  shows "(its = [] \<and> result = returnData @ its) \<or>
         (limit < int (length (returnData @ its)) \<and> result = take (nat limit) (returnData @ its))"
proof (cases "limit < int (length (returnData @ its))")
  case True
  with assms have "result = slice0 limit (returnData @ its)"
    by (simp add: zammadApiRequestAllItems_body_def zammadApiRequest_ok Let_def)
  with True assms(1) show ?thesis by (simp only: slice0_positive) simp
next
  case False
  with assms have "js_length response = 0 \<and> result = returnData @ its"
    by (simp add: zammadApiRequestAllItems_body_def zammadApiRequest_ok Let_def split: if_splits)
  with assms(3) show ?thesis by (simp add: spread_empty)
qed

text \<open>
  Claim C1, as the code has it. For a fetch without limit where the remote answers the
  first three requests with pages of 20, 20 and 5 items and the fourth with an empty page,
  \<open>zammadApiRequestAllItems\<close> issues exactly four requests, with the query parameter
  \<open>page\<close> 1, 2, 3 and 4, and returns the 45 items in page order. The loop goes on
  while the last page was not empty, so the page of 5 items is followed by one more
  request, and only its empty answer ends the fetch.
\<close>

theorem zammadApiRequestAllItems_pages_20_20_5:
  assumes r1: "request ctx log (page_request ctx method endpoint body qs 1) = Inr (JArr p1)"
    and r2: "request ctx (log @ [page_request ctx method endpoint body qs 1])
               (page_request ctx method endpoint body qs 2) = Inr (JArr p2)"
    and r3: "request ctx (log @ [page_request ctx method endpoint body qs 1,
                                 page_request ctx method endpoint body qs 2])
               (page_request ctx method endpoint body qs 3) = Inr (JArr p3)"
    and r4: "request ctx (log @ [page_request ctx method endpoint body qs 1,
                                 page_request ctx method endpoint body qs 2,
                                 page_request ctx method endpoint body qs 3])
               (page_request ctx method endpoint body qs 4) = Inr (JArr [])"
    and l: "length p1 = 20" "length p2 = 20" "length p3 = 5"
  shows "zammadApiRequestAllItems ctx method endpoint body qs 0 log =
           Some (Inr (p1 @ p2 @ p3),
                 AList.update ''page'' (JNum 5) (AList.update ''per_page'' (JNum 20) qs),
                 log @ [page_request ctx method endpoint body qs 1,
                        page_request ctx method endpoint body qs 2,
                        page_request ctx method endpoint body qs 3,
                        page_request ctx method endpoint body qs 4]) \<and>
         length (p1 @ p2 @ p3) = 45 \<and>
         map (\<lambda>options. query_parameter options ''page'')
           [page_request ctx method endpoint body qs 1, page_request ctx method endpoint body qs 2,
            page_request ctx method endpoint body qs 3, page_request ctx method endpoint body qs 4] =
           [Some (JNum 1), Some (JNum 2), Some (JNum 3), Some (JNum 4)]"
proof -
  let ?q = "AList.update ''per_page'' (JNum 20) qs"
  let ?o = "page_request ctx method endpoint body qs"
  have ne: "p1 \<noteq> []" "p2 \<noteq> []" "p3 \<noteq> []" using l by auto
  have s1: "zammadApiRequestAllItems_loop ctx method endpoint body 0 [] (AList.update ''page'' (JNum 1) ?q) log =
            zammadApiRequestAllItems_loop ctx method endpoint body 0 p1 (AList.update ''page'' (JNum 2) ?q) (log @ [?o 1])"
    using loop_continue [of ctx log "method" endpoint body "AList.update ''page'' (JNum 1) ?q" p1 0 "[]"] r1 ne(1)
    by (simp add: page_request_def page_increment_update)
  have s2: "zammadApiRequestAllItems_loop ctx method endpoint body 0 p1 (AList.update ''page'' (JNum 2) ?q) (log @ [?o 1]) =
            zammadApiRequestAllItems_loop ctx method endpoint body 0 (p1 @ p2) (AList.update ''page'' (JNum 3) ?q) (log @ [?o 1, ?o 2])"
    using loop_continue [of ctx "log @ [?o 1]" "method" endpoint body "AList.update ''page'' (JNum 2) ?q" p2 0 p1] r2 ne(2)
    by (simp add: page_request_def page_increment_update)
  have s3: "zammadApiRequestAllItems_loop ctx method endpoint body 0 (p1 @ p2) (AList.update ''page'' (JNum 3) ?q) (log @ [?o 1, ?o 2]) =
            zammadApiRequestAllItems_loop ctx method endpoint body 0 (p1 @ p2 @ p3) (AList.update ''page'' (JNum 4) ?q) (log @ [?o 1, ?o 2, ?o 3])"
    using loop_continue [of ctx "log @ [?o 1, ?o 2]" "method" endpoint body "AList.update ''page'' (JNum 3) ?q" p3 0 "p1 @ p2"] r3 ne(3)
    by (simp add: page_request_def page_increment_update)
  have s4: "zammadApiRequestAllItems_loop ctx method endpoint body 0 (p1 @ p2 @ p3) (AList.update ''page'' (JNum 4) ?q) (log @ [?o 1, ?o 2, ?o 3]) =
            Some (Inr (p1 @ p2 @ p3), AList.update ''page'' (JNum 5) ?q, log @ [?o 1, ?o 2, ?o 3, ?o 4])"
    using loop_empty [of ctx "log @ [?o 1, ?o 2, ?o 3]" "method" endpoint body "AList.update ''page'' (JNum 4) ?q" 0 "p1 @ p2 @ p3"] r4
    by (simp add: page_request_def page_increment_update)
  have "zammadApiRequestAllItems ctx method endpoint body qs 0 log =
        zammadApiRequestAllItems_loop ctx method endpoint body 0 [] (AList.update ''page'' (JNum 1) ?q) log"
    by (simp add: zammadApiRequestAllItems_def)
  with s1 s2 s3 s4 have "zammadApiRequestAllItems ctx method endpoint body qs 0 log =
      Some (Inr (p1 @ p2 @ p3), AList.update ''page'' (JNum 5) ?q, log @ [?o 1, ?o 2, ?o 3, ?o 4])"
    by simp
  moreover have "length (p1 @ p2 @ p3) = 45" using l by simp
  ultimately show ?thesis by (simp add: query_parameter_page)
qed

theorem zammadApiRequestAllItems_pages_20_20_5_witness:
  "zammadApiRequestAllItems (pages_context 45) ''GET'' ''/tickets'' [] [] 0 [] =
     Some (Inr (map JNum [1..20] @ map JNum [21..40] @ map JNum [41..45]),
           AList.update ''page'' (JNum 5) (AList.update ''per_page'' (JNum 20) []),
           [] @ [page_request (pages_context 45) ''GET'' ''/tickets'' [] [] 1,
                 page_request (pages_context 45) ''GET'' ''/tickets'' [] [] 2,
                 page_request (pages_context 45) ''GET'' ''/tickets'' [] [] 3,
                 page_request (pages_context 45) ''GET'' ''/tickets'' [] [] 4]) \<and>
   length (map JNum [1..20] @ map JNum [21..40] @ map JNum [41..45]) = 45"
proof -
  have r1: "request (pages_context 45) []
              (page_request (pages_context 45) ''GET'' ''/tickets'' [] [] 1) =
            Inr (JArr (map JNum [1..20]))"
    by code_simp
  have r2: "request (pages_context 45)
              ([] @ [page_request (pages_context 45) ''GET'' ''/tickets'' [] [] 1])
              (page_request (pages_context 45) ''GET'' ''/tickets'' [] [] 2) =
            Inr (JArr (map JNum [21..40]))"
    by code_simp
  have r3: "request (pages_context 45)
              ([] @ [page_request (pages_context 45) ''GET'' ''/tickets'' [] [] 1,
                     page_request (pages_context 45) ''GET'' ''/tickets'' [] [] 2])
              (page_request (pages_context 45) ''GET'' ''/tickets'' [] [] 3) =
            Inr (JArr (map JNum [41..45]))"
    by code_simp
  have r4: "request (pages_context 45)
              ([] @ [page_request (pages_context 45) ''GET'' ''/tickets'' [] [] 1,
                     page_request (pages_context 45) ''GET'' ''/tickets'' [] [] 2,
                     page_request (pages_context 45) ''GET'' ''/tickets'' [] [] 3])
              (page_request (pages_context 45) ''GET'' ''/tickets'' [] [] 4) =
            Inr (JArr [])"
    by code_simp
  have l: "length (map JNum [1..20]) = 20" "length (map JNum [21..40]) = 20"
    "length (map JNum [41..45]) = 5"
    by code_simp+
  from zammadApiRequestAllItems_pages_20_20_5 [OF r1 r2 r3 r4 l] show ?thesis by blast
qed

text \<open>
  Claim C1 as stated fails on a remote that holds 45 items: it serves pages of 20, 20
  and 5 items, and the fetch issues four requests, not three.
\<close>

theorem zammadApiRequestAllItems_three_requests_counterexample:
  "page_size (paged_remote (numbered_items 45) [] (page_request (pages_context 45) ''GET'' ''/tickets'' [] [] 1)) = 20 \<and>
   page_size (paged_remote (numbered_items 45) [] (page_request (pages_context 45) ''GET'' ''/tickets'' [] [] 2)) = 20 \<and>
   page_size (paged_remote (numbered_items 45) [] (page_request (pages_context 45) ''GET'' ''/tickets'' [] [] 3)) = 5 \<and>
   requests_issued (zammadApiRequestAllItems (pages_context 45) ''GET'' ''/tickets'' [] [] 0 []) = Some 4 \<and>
   requests_issued (zammadApiRequestAllItems (pages_context 45) ''GET'' ''/tickets'' [] [] 0 []) \<noteq> Some 3"
  by code_simp

text \<open>
  Claim C2, as the code has it. \<open>zammadApiRequestAllItems\<close> writes into the query
  object of its caller: when the call is over, the property \<open>per_page\<close> of that
  object is 20, the property \<open>page\<close> is a number from 1 on, and every other property
  is as it was.
\<close>

theorem zammadApiRequestAllItems_overwrites_qs:
  assumes "zammadApiRequestAllItems ctx method endpoint body qs limit log = Some (r, qf, logf)"
  shows "(\<forall>k. k \<noteq> ''per_page'' \<and> k \<noteq> ''page'' \<longrightarrow> map_of qf k = map_of qs k) \<and>
         map_of qf ''per_page'' = Some (JNum 20) \<and>
         (\<exists>n\<ge>1. map_of qf ''page'' = Some (JNum n))"
proof -
  let ?q = "AList.update ''page'' (JNum 1) (AList.update ''per_page'' (JNum 20) qs)"
  from assms have "zammadApiRequestAllItems_loop ctx method endpoint body limit [] ?q log = Some (r, qf, logf)"
    by (simp add: zammadApiRequestAllItems_def)
  note f = loop_frame [OF this]
  from f have a: "\<forall>k. k \<noteq> ''page'' \<longrightarrow> map_of qf k = map_of ?q k" by simp
  from f have b: "\<forall>n. map_of ?q ''page'' = Some (JNum n) \<longrightarrow> (\<exists>n'\<ge>n. map_of qf ''page'' = Some (JNum n'))"
    by simp
  have "\<forall>k. k \<noteq> ''per_page'' \<and> k \<noteq> ''page'' \<longrightarrow> map_of qf k = map_of qs k"
    using a by (simp add: update_conv')
  moreover have "map_of qf ''per_page'' = Some (JNum 20)"
    using a by (simp add: update_conv')
  moreover have "map_of ?q ''page'' = Some (JNum 1)" by (simp add: update_conv')
  with b have "\<exists>n\<ge>1. map_of qf ''page'' = Some (JNum n)" by blast
  ultimately show ?thesis by (intro conjI)
qed

theorem zammadApiRequestAllItems_overwrites_qs_witness:
  "zammadApiRequestAllItems (pages_context 0) ''GET'' ''/tickets'' [] [(''expand'', JBool True)] 0 [] =
     Some (Inr [], [(''expand'', JBool True), (''per_page'', JNum 20), (''page'', JNum 2)],
           [page_request (pages_context 0) ''GET'' ''/tickets'' [] [(''expand'', JBool True)] 1]) \<and>
   map_of [(''expand'', JBool True), (''per_page'', JNum 20), (''page'', JNum 2)] ''expand'' =
     map_of [(''expand'', JBool True)] ''expand'' \<and>
   map_of [(''expand'', JBool True), (''per_page'', JNum 20), (''page'', JNum 2)] ''per_page'' =
     Some (JNum 20) \<and>
   (\<exists>n\<ge>1. map_of [(''expand'', JBool True), (''per_page'', JNum 20), (''page'', JNum 2)] ''page'' =
     Some (JNum n))"
proof -
  have e: "zammadApiRequestAllItems (pages_context 0) ''GET'' ''/tickets'' [] [(''expand'', JBool True)] 0 [] =
     Some (Inr [], [(''expand'', JBool True), (''per_page'', JNum 20), (''page'', JNum 2)],
           [page_request (pages_context 0) ''GET'' ''/tickets'' [] [(''expand'', JBool True)] 1])"
    by code_simp
  have k: "''expand'' \<noteq> ''per_page'' \<and> ''expand'' \<noteq> ''page''" by simp
  note t = zammadApiRequestAllItems_overwrites_qs [OF e]
  from t [THEN conjunct1, rule_format, OF k]
  have 1: "map_of [(''expand'', JBool True), (''per_page'', JNum 20), (''page'', JNum 2)] ''expand'' =
     map_of [(''expand'', JBool True)] ''expand''" .
  from t have 2: "map_of [(''expand'', JBool True), (''per_page'', JNum 20), (''page'', JNum 2)] ''per_page'' =
     Some (JNum 20)"
    by (rule conjunct2 [THEN conjunct1])
  from t have 3: "\<exists>n\<ge>1. map_of [(''expand'', JBool True), (''per_page'', JNum 20), (''page'', JNum 2)] ''page'' =
     Some (JNum n)"
    by (rule conjunct2 [THEN conjunct2])
  from e 1 2 3 show ?thesis by (intro conjI)
qed

text \<open>
  Claim C2 as stated fails: the query object of the caller is not the same after the
  call. A query with the one property \<open>expand\<close> comes back with \<open>per_page\<close>
  and \<open>page\<close> added.
\<close>

theorem zammadApiRequestAllItems_qs_unchanged_counterexample:
  "map_option (fst \<circ> snd)
     (zammadApiRequestAllItems (pages_context 0) ''GET'' ''/tickets'' [] [(''expand'', JBool True)] 0 []) =
     Some [(''expand'', JBool True), (''per_page'', JNum 20), (''page'', JNum 2)] \<and>
   map_option (fst \<circ> snd)
     (zammadApiRequestAllItems (pages_context 0) ''GET'' ''/tickets'' [] [(''expand'', JBool True)] 0 []) \<noteq>
     Some [(''expand'', JBool True)]"
  by code_simp

text \<open>
  Claim C3. With limit 10 and a first page of 20 items, \<open>zammadApiRequestAllItems\<close>
  returns the first 10 items and issues one request. In general, in any pass of the loop:
  once the accumulated items exceed a positive limit, the result is cut to exactly
  \<open>limit\<close> items and returned at once; the request of this pass is the last one.
\<close>

theorem zammadApiRequestAllItems_limit:
  "(request ctx log (page_request ctx method endpoint body qs 1) = Inr (JArr items) \<and> length items = 20 \<longrightarrow>
      zammadApiRequestAllItems ctx method endpoint body qs 10 log =
        Some (Inr (take 10 items),
              AList.update ''page'' (JNum 1) (AList.update ''per_page'' (JNum 20) qs),
              log @ [page_request ctx method endpoint body qs 1]) \<and>
      length (take 10 items) = 10) \<and>
   (0 < limit \<and>
    request ctx log2 (zammadApiRequest_options (getCredentials ctx) method endpoint body qs2) = Inr (JArr items2) \<and>
    limit < int (length (returnData @ items2)) \<longrightarrow>
      zammadApiRequestAllItems_loop ctx method endpoint body limit returnData qs2 log2 =
        Some (Inr (take (nat limit) (returnData @ items2)), qs2,
              log2 @ [zammadApiRequest_options (getCredentials ctx) method endpoint body qs2]) \<and>
      length (take (nat limit) (returnData @ items2)) = nat limit)"
proof (intro conjI impI)
  assume a: "request ctx log (page_request ctx method endpoint body qs 1) = Inr (JArr items) \<and> length items = 20"
  then have r: "request ctx log (zammadApiRequest_options (getCredentials ctx) method endpoint body
      (AList.update ''page'' (JNum 1) (AList.update ''per_page'' (JNum 20) qs))) = Inr (JArr items)"
    by (simp add: page_request_def)
  have "zammadApiRequestAllItems_loop ctx method endpoint body 10 []
          (AList.update ''page'' (JNum 1) (AList.update ''per_page'' (JNum 20) qs)) log =
        Some (Inr (slice0 10 ([] @ items)),
              AList.update ''page'' (JNum 1) (AList.update ''per_page'' (JNum 20) qs),
              log @ [page_request ctx method endpoint body qs 1])"
    unfolding page_request_def using r a by (intro loop_limit) simp_all
  moreover have "slice0 10 ([] @ items) = take 10 items"
    using a slice0_positive [of 10 items] by simp
  ultimately show "zammadApiRequestAllItems ctx method endpoint body qs 10 log =
        Some (Inr (take 10 items),
              AList.update ''page'' (JNum 1) (AList.update ''per_page'' (JNum 20) qs),
              log @ [page_request ctx method endpoint body qs 1])"
    by (simp add: zammadApiRequestAllItems_def)
  from a show "length (take 10 items) = 10" by simp
next
  assume b: "0 < limit \<and>
    request ctx log2 (zammadApiRequest_options (getCredentials ctx) method endpoint body qs2) = Inr (JArr items2) \<and>
    limit < int (length (returnData @ items2))"
  then have "zammadApiRequestAllItems_loop ctx method endpoint body limit returnData qs2 log2 =
        Some (Inr (slice0 limit (returnData @ items2)), qs2,
              log2 @ [zammadApiRequest_options (getCredentials ctx) method endpoint body qs2])"
    by (intro loop_limit) simp_all
  moreover from b have "slice0 limit (returnData @ items2) = take (nat limit) (returnData @ items2)"
    by (intro slice0_positive) simp_all
  ultimately show "zammadApiRequestAllItems_loop ctx method endpoint body limit returnData qs2 log2 =
        Some (Inr (take (nat limit) (returnData @ items2)), qs2,
              log2 @ [zammadApiRequest_options (getCredentials ctx) method endpoint body qs2])"
    by simp
  from b have "limit < int (length (returnData @ items2))" by blast
  then have "nat limit \<le> length (returnData @ items2)" by linarith
  then show "length (take (nat limit) (returnData @ items2)) = nat limit"
    by (simp only: length_take min.absorb2)
qed

theorem zammadApiRequestAllItems_limit_witness:
  "zammadApiRequestAllItems (pages_context 45) ''GET'' ''/tickets'' [] [] 10 [] =
     Some (Inr (take 10 (numbered_items 20)),
           AList.update ''page'' (JNum 1) (AList.update ''per_page'' (JNum 20) []),
           [] @ [page_request (pages_context 45) ''GET'' ''/tickets'' [] [] 1]) \<and>
   length (take 10 (numbered_items 20)) = 10 \<and>
   zammadApiRequestAllItems_loop (pages_context 45) ''GET'' ''/tickets'' [] 3 (numbered_items 2)
       [(''per_page'', JNum 20), (''page'', JNum 1)] [] =
     Some (Inr (take (nat 3) (numbered_items 2 @ numbered_items 20)),
           [(''per_page'', JNum 20), (''page'', JNum 1)],
           [] @ [zammadApiRequest_options (getCredentials (pages_context 45)) ''GET'' ''/tickets'' []
                   [(''per_page'', JNum 20), (''page'', JNum 1)]]) \<and>
   length (take (nat 3) (numbered_items 2 @ numbered_items 20)) = nat 3"
proof -
  have a: "request (pages_context 45) []
             (page_request (pages_context 45) ''GET'' ''/tickets'' [] [] 1) =
             Inr (JArr (numbered_items 20)) \<and>
           length (numbered_items 20) = 20"
    by code_simp
  have b: "(0::int) < 3 \<and>
           request (pages_context 45) []
             (zammadApiRequest_options (getCredentials (pages_context 45)) ''GET'' ''/tickets'' []
                [(''per_page'', JNum 20), (''page'', JNum 1)]) = Inr (JArr (numbered_items 20)) \<and>
           3 < int (length (numbered_items 2 @ numbered_items 20))"
    by code_simp
  from a b zammadApiRequestAllItems_limit
    [of "pages_context 45" "[]" "''GET''" "''/tickets''" "[]" "[]" "numbered_items 20" 3 "[]"
        "[(''per_page'', JNum 20), (''page'', JNum 1)]" "numbered_items 20" "numbered_items 2"]
  show ?thesis by blast
qed

text \<open>
  Claim C9. For a positive limit: when a page that is not empty brings the accumulated
  count to exactly the limit, the loop neither stops nor truncates; it goes round again,
  and whatever the call ends with, the request of this pass is followed by the request
  for the next page. A pass ends the fetch with a result only when its page is empty (the
  result is everything accumulated) or when the count is above the limit (the result is
  cut to the limit).
\<close>

theorem zammadApiRequestAllItems_limit_met_exactly:
  "(0 < limit \<and>
    request ctx log (zammadApiRequest_options (getCredentials ctx) method endpoint body qs) = Inr (JArr items) \<and>
    items \<noteq> [] \<and> int (length (returnData @ items)) = limit \<longrightarrow>
      zammadApiRequestAllItems_body ctx method endpoint body limit returnData qs log =
        Inr (returnData @ items, page_increment qs,
             log @ [zammadApiRequest_options (getCredentials ctx) method endpoint body qs]) \<and>
      zammadApiRequestAllItems_loop ctx method endpoint body limit returnData qs log =
        zammadApiRequestAllItems_loop ctx method endpoint body limit (returnData @ items)
          (page_increment qs)
          (log @ [zammadApiRequest_options (getCredentials ctx) method endpoint body qs]) \<and>
      (\<forall>y. zammadApiRequestAllItems_loop ctx method endpoint body limit returnData qs log = Some y \<longrightarrow>
         (\<exists>rest. snd (snd y) =
            log @ [zammadApiRequest_options (getCredentials ctx) method endpoint body qs,
                   zammadApiRequest_options (getCredentials ctx) method endpoint body (page_increment qs)]
                @ rest))) \<and>
   (0 < limit \<and>
    request ctx log2 (zammadApiRequest_options (getCredentials ctx) method endpoint body qs2) = Inr response \<and>
    spread response = Inr its \<and>
    zammadApiRequestAllItems_body ctx method endpoint body limit returnData2 qs2 log2 =
      Inl (Inr result, qf, logf) \<longrightarrow>
      (its = [] \<and> result = returnData2 @ its) \<or>
      (limit < int (length (returnData2 @ its)) \<and> result = take (nat limit) (returnData2 @ its)))"
proof (intro conjI impI allI)
  assume a: "0 < limit \<and>
    request ctx log (zammadApiRequest_options (getCredentials ctx) method endpoint body qs) = Inr (JArr items) \<and>
    items \<noteq> [] \<and> int (length (returnData @ items)) = limit"
  then have r: "request ctx log (zammadApiRequest_options (getCredentials ctx) method endpoint body qs) = Inr (JArr items)"
    and le: "limit = 0 \<or> int (length (returnData @ items)) \<le> limit" and ne: "items \<noteq> []"
    by simp_all
  show "zammadApiRequestAllItems_body ctx method endpoint body limit returnData qs log =
        Inr (returnData @ items, page_increment qs,
             log @ [zammadApiRequest_options (getCredentials ctx) method endpoint body qs])"
    using r le ne by (rule body_continue)
  show step: "zammadApiRequestAllItems_loop ctx method endpoint body limit returnData qs log =
        zammadApiRequestAllItems_loop ctx method endpoint body limit (returnData @ items)
          (page_increment qs)
          (log @ [zammadApiRequest_options (getCredentials ctx) method endpoint body qs])"
    using r le ne by (rule loop_continue)
  fix y
  assume "zammadApiRequestAllItems_loop ctx method endpoint body limit returnData qs log = Some y"
  with step have "zammadApiRequestAllItems_loop ctx method endpoint body limit (returnData @ items)
          (page_increment qs)
          (log @ [zammadApiRequest_options (getCredentials ctx) method endpoint body qs]) = Some y"
    by simp
  from loop_frame [OF this] obtain rest where
    "snd (snd y) = (log @ [zammadApiRequest_options (getCredentials ctx) method endpoint body qs]) @
       [zammadApiRequest_options (getCredentials ctx) method endpoint body (page_increment qs)] @ rest"
    by (elim conjE exE)
  then have "snd (snd y) =
            log @ [zammadApiRequest_options (getCredentials ctx) method endpoint body qs,
                   zammadApiRequest_options (getCredentials ctx) method endpoint body (page_increment qs)]
                @ rest"
    by simp
  then show "\<exists>rest. snd (snd y) =
            log @ [zammadApiRequest_options (getCredentials ctx) method endpoint body qs,
                   zammadApiRequest_options (getCredentials ctx) method endpoint body (page_increment qs)]
                @ rest"
    by (rule exI)
next
  assume "0 < limit \<and>
    request ctx log2 (zammadApiRequest_options (getCredentials ctx) method endpoint body qs2) = Inr response \<and>
    spread response = Inr its \<and>
    zammadApiRequestAllItems_body ctx method endpoint body limit returnData2 qs2 log2 =
      Inl (Inr result, qf, logf)"
  then show "(its = [] \<and> result = returnData2 @ its) \<or>
      (limit < int (length (returnData2 @ its)) \<and> result = take (nat limit) (returnData2 @ its))"
    by (elim conjE) (rule body_stops)
qed

theorem zammadApiRequestAllItems_limit_met_exactly_witness:
  "zammadApiRequestAllItems_body (pages_context 20) ''GET'' ''/tickets'' [] 20 []
       [(''per_page'', JNum 20), (''page'', JNum 1)] [] =
     Inr ([] @ numbered_items 20, page_increment [(''per_page'', JNum 20), (''page'', JNum 1)],
          [] @ [zammadApiRequest_options (getCredentials (pages_context 20)) ''GET'' ''/tickets'' []
                  [(''per_page'', JNum 20), (''page'', JNum 1)]]) \<and>
   zammadApiRequestAllItems_loop (pages_context 20) ''GET'' ''/tickets'' [] 20 []
       [(''per_page'', JNum 20), (''page'', JNum 1)] [] =
     zammadApiRequestAllItems_loop (pages_context 20) ''GET'' ''/tickets'' [] 20
       ([] @ numbered_items 20) (page_increment [(''per_page'', JNum 20), (''page'', JNum 1)])
       ([] @ [zammadApiRequest_options (getCredentials (pages_context 20)) ''GET'' ''/tickets'' []
                  [(''per_page'', JNum 20), (''page'', JNum 1)]]) \<and>
   requests_issued (zammadApiRequestAllItems (pages_context 20) ''GET'' ''/tickets'' [] [] 20 []) = Some 2 \<and>
   zammadApiRequestAllItems_body (pages_context 20) ''GET'' ''/tickets'' [] 20 (numbered_items 20)
       [(''per_page'', JNum 20), (''page'', JNum 2)]
       [page_request (pages_context 20) ''GET'' ''/tickets'' [] [] 1] =
     Inl (Inr (numbered_items 20), [(''per_page'', JNum 20), (''page'', JNum 3)],
          [page_request (pages_context 20) ''GET'' ''/tickets'' [] [] 1,
           page_request (pages_context 20) ''GET'' ''/tickets'' [] [] 2]) \<and>
   (([]::jvalue list) = [] \<and> numbered_items 20 = numbered_items 20 @ [] \<or>
    20 < int (length (numbered_items 20 @ [])) \<and>
    numbered_items 20 = take (nat 20) (numbered_items 20 @ []))"
proof -
  have a: "(0::int) < 20 \<and>
    request (pages_context 20) []
      (zammadApiRequest_options (getCredentials (pages_context 20)) ''GET'' ''/tickets'' []
         [(''per_page'', JNum 20), (''page'', JNum 1)]) = Inr (JArr (numbered_items 20)) \<and>
    numbered_items 20 \<noteq> [] \<and> int (length ([] @ numbered_items 20)) = 20"
    by code_simp
  have c: "requests_issued (zammadApiRequestAllItems (pages_context 20) ''GET'' ''/tickets'' [] [] 20 []) = Some 2"
    by code_simp
  have s: "zammadApiRequestAllItems_body (pages_context 20) ''GET'' ''/tickets'' [] 20 (numbered_items 20)
       [(''per_page'', JNum 20), (''page'', JNum 2)]
       [page_request (pages_context 20) ''GET'' ''/tickets'' [] [] 1] =
     Inl (Inr (numbered_items 20), [(''per_page'', JNum 20), (''page'', JNum 3)],
          [page_request (pages_context 20) ''GET'' ''/tickets'' [] [] 1,
           page_request (pages_context 20) ''GET'' ''/tickets'' [] [] 2])"
    by code_simp
  have b: "(0::int) < 20 \<and>
    request (pages_context 20) [page_request (pages_context 20) ''GET'' ''/tickets'' [] [] 1]
      (zammadApiRequest_options (getCredentials (pages_context 20)) ''GET'' ''/tickets'' []
         [(''per_page'', JNum 20), (''page'', JNum 2)]) = Inr (JArr []) \<and>
    spread (JArr []) = Inr []"
    by code_simp
  from a b c s zammadApiRequestAllItems_limit_met_exactly
    [of 20 "pages_context 20" "[]" "''GET''" "''/tickets''" "[]"
        "[(''per_page'', JNum 20), (''page'', JNum 1)]" "numbered_items 20" "[]"
        "[page_request (pages_context 20) ''GET'' ''/tickets'' [] [] 1]"
        "[(''per_page'', JNum 20), (''page'', JNum 2)]" "JArr []" "[]" "numbered_items 20"
        "numbered_items 20" "[(''per_page'', JNum 20), (''page'', JNum 3)]"
        "[page_request (pages_context 20) ''GET'' ''/tickets'' [] [] 1,
           page_request (pages_context 20) ''GET'' ''/tickets'' [] [] 2]"]
  show ?thesis by blast
qed


end
